theory Spec2Isabelle
  imports Main
begin

section \<open>queuectl: the job table, the worker and the command line operations\<close>

text \<open>
  The development follows the three source files of the package:
  \<^verbatim>\<open>models.py\<close> (the \<^verbatim>\<open>jobs\<close> table), \<^verbatim>\<open>worker.py\<close> (claiming a job,
  running it, recording the outcome) and \<^verbatim>\<open>cli.py\<close> (adding jobs, retrying dead
  ones, the configuration).

  Conventions of the embedding.
  \<^item> The table is a list of rows. A \<^verbatim>\<open>session.commit()\<close> after attribute
    assignments on a loaded object is the replacement of the row with the object's
    primary key; the store is taken to be reachable, so a commit itself never fails.
  \<^item> Every call of \<^verbatim>\<open>datetime.utcnow()\<close> is an explicit argument of the function
    that makes it.
  \<^item> What the child process does is an argument as well (\<open>proc_result\<close>): the model
    says what the worker does with each possible result of
    \<^verbatim>\<open>Popen\<close>/\<^verbatim>\<open>communicate\<close>.
  \<^item> A Python exception is a value of \<open>py_exn\<close>; a function that can raise
    returns \<open>py_exn + 'a\<close>.
\<close>

subsection \<open>Python values used by the package\<close>

text \<open>
  A naive \<^verbatim>\<open>datetime\<close> is the number of microseconds since
  \<^verbatim>\<open>datetime.min\<close> (0001-01-01 00:00:00); \<^verbatim>\<open>datetime.max\<close> is
  9999-12-31 23:59:59.999999, the last microsecond of day 3652059.
  A \<^verbatim>\<open>timedelta\<close> is a number of microseconds whose whole days have magnitude at
  most 999999999.
\<close>

type_synonym datetime = int
type_synonym timedelta = int

datatype py_exn = OverflowError string | NameError string | OtherError string

definition dt_min :: datetime where
  "dt_min = 0"

definition dt_max :: datetime where
  "dt_max = 3652059 * 86400 * 1000000 - 1"

definition digit_char :: "nat \<Rightarrow> char" where
  "digit_char d = ''0123456789'' ! d"

fun str_nat :: "nat \<Rightarrow> string" where
  "str_nat n = (if n < 10 then [digit_char n] else str_nat (n div 10) @ [digit_char (n mod 10)])"

declare str_nat.simps [simp del]

definition str_int :: "int \<Rightarrow> string" where
  "str_int i = (if i < 0 then CHR ''-'' # str_nat (nat (- i)) else str_nat (nat i))"

text \<open>\<^verbatim>\<open>str(e)\<close> of an exception is its message.\<close>

fun str_exn :: "py_exn \<Rightarrow> string" where
  "str_exn (OverflowError m) = m"
| "str_exn (NameError m) = m"
| "str_exn (OtherError m) = m"

text \<open>
  \<^verbatim>\<open>timedelta(seconds=n)\<close> for an integer \<open>n\<close>: the days are \<open>n // 86400\<close>
  (floor division); CPython first converts them to a C \<^verbatim>\<open>int\<close> and then checks the
  magnitude, raising \<^verbatim>\<open>OverflowError\<close> in both cases.
\<close>

definition timedelta_seconds :: "int \<Rightarrow> py_exn + timedelta" where
  "timedelta_seconds n =
     (let d = n div 86400 in
      if d < - (2 ^ 31) \<or> 2 ^ 31 \<le> d
        then Inl (OverflowError ''Python int too large to convert to C int'')
      else if d < - 999999999 \<or> 999999999 < d
        then Inl (OverflowError (''days='' @ str_int d @ ''; must have magnitude <= 999999999''))
      else Inr (n * 1000000))"

text \<open>\<^verbatim>\<open>datetime + timedelta\<close>: the sum, or \<^verbatim>\<open>OverflowError\<close> outside
  \<^verbatim>\<open>datetime.min .. datetime.max\<close>.\<close>

definition dt_add :: "datetime \<Rightarrow> timedelta \<Rightarrow> py_exn + datetime" where
  "dt_add t d =
     (let r = t + d in
      if r < dt_min \<or> dt_max < r then Inl (OverflowError ''date value out of range'')
      else Inr r)"

text \<open>\<^verbatim>\<open>x or y\<close> for an optional integer \<open>x\<close> (\<^verbatim>\<open>None\<close> and \<open>0\<close> are falsy).\<close>

definition py_or :: "int option \<Rightarrow> int \<Rightarrow> int" where
  "py_or x y = (case x of None \<Rightarrow> y | Some v \<Rightarrow> if v = 0 then y else v)"

subsection \<open>\<^verbatim>\<open>models.py\<close>: the job table\<close>

datatype JobStatus = PENDING | PROCESSING | COMPLETED | FAILED | DEAD

text \<open>
  One row of \<^verbatim>\<open>jobs\<close>. The column \<^verbatim>\<open>id\<close> is \<open>job_id\<close> here.
  \<^verbatim>\<open>attempts\<close> starts at 0 and is only ever incremented or set to 0, so it is a
  natural number; \<^verbatim>\<open>max_attempts\<close> and \<^verbatim>\<open>backoff_base\<close> hold whatever integer
  the command line passed.
\<close>

record Job =
  job_id :: int
  command :: string
  status :: JobStatus
  created_at :: datetime
  started_at :: "datetime option"
  completed_at :: "datetime option"
  attempts :: nat
  max_attempts :: int
  error :: "string option"
  backoff_base :: int
  next_retry_at :: "datetime option"

text \<open>
  The table. The order of the list is the order in which the database yields rows that a
  query does not order otherwise; the source never asks for a particular one.
\<close>

type_synonym store = "Job list"

text \<open>Committing a modified object: the row with its primary key is replaced.\<close>

definition update_row :: "store \<Rightarrow> Job \<Rightarrow> store" where
  "update_row s j = map (\<lambda>r. if job_id r = job_id j then j else r) s"

text \<open>The key of a new row: one more than the largest key in use, 1 in an empty table.\<close>

definition next_id :: "store \<Rightarrow> int" where
  "next_id s = fold max (map job_id s) 0 + 1"

subsection \<open>\<^verbatim>\<open>worker.py\<close>\<close>

text \<open>The filter of the query in \<^verbatim>\<open>_process_jobs\<close> (lines 42 to 45).\<close>

definition eligible :: "datetime \<Rightarrow> Job \<Rightarrow> bool" where
  "eligible now j =
     (status j = PENDING \<and> (case next_retry_at j of None \<Rightarrow> True | Some t \<Rightarrow> t \<le> now))"

text \<open>
  \<^verbatim>\<open>.filter(...).order_by(Job.created_at).first()\<close>: the eligible rows, ordered by
  \<open>created_at\<close> alone, and the first of them. Rows with equal \<open>created_at\<close> keep
  the order in which the database yields them.
\<close>

definition pending_query :: "store \<Rightarrow> datetime \<Rightarrow> Job option" where
  "pending_query s now =
     (case sort_key created_at (filter (eligible now) s) of
        [] \<Rightarrow> None
      | j # _ \<Rightarrow> Some j)"

text \<open>"Mark job as processing" (lines 51 to 53).\<close>

definition mark_processing :: "Job \<Rightarrow> datetime \<Rightarrow> Job" where
  "mark_processing j now = j\<lparr>status := PROCESSING, attempts := attempts j + 1, started_at := Some now\<rparr>"

text \<open>
  The claim of \<^verbatim>\<open>_process_jobs\<close> run without interruption: query at \<open>tq\<close>, mark and
  commit at \<open>ts\<close>. The result is the new table and the claimed job, if any.
\<close>

definition claim_next :: "store \<Rightarrow> datetime \<Rightarrow> datetime \<Rightarrow> store \<times> Job option" where
  "claim_next s tq ts =
     (case pending_query s tq of
        None \<Rightarrow> (s, None)
      | Some j \<Rightarrow> (update_row s (mark_processing j ts), Some (mark_processing j ts)))"

definition handle_success :: "Job \<Rightarrow> datetime \<Rightarrow> Job" where
  "handle_success j now = j\<lparr>status := COMPLETED, completed_at := Some now\<rparr>"

text \<open>The delay of \<^verbatim>\<open>_handle_failure\<close> in seconds (line 114).\<close>

definition backoff :: "Job \<Rightarrow> int" where
  "backoff j = (backoff_base j ^ attempts j) * 60"

text \<open>
  \<^verbatim>\<open>_handle_failure\<close>: the object as it is committed, or the exception raised by the
  date arithmetic of line 115 (nothing is committed then).
\<close>

definition handle_failure :: "Job \<Rightarrow> datetime \<Rightarrow> string \<Rightarrow> py_exn + Job" where
  "handle_failure j now err =
     (let j1 = j\<lparr>error := Some err\<rparr> in
      if max_attempts j1 \<le> int (attempts j1)
        then Inr (j1\<lparr>status := DEAD, completed_at := Some now\<rparr>)
      else
        (case timedelta_seconds (backoff j1) of
           Inl e \<Rightarrow> Inl e
         | Inr d \<Rightarrow>
             (case dt_add now d of
                Inl e \<Rightarrow> Inl e
              | Inr t \<Rightarrow> Inr (j1\<lparr>next_retry_at := Some t, status := PENDING\<rparr>))))"

text \<open>
  What \<^verbatim>\<open>Popen\<close> and \<^verbatim>\<open>communicate(timeout=3600)\<close> can do: the process ends
  within the hour with a return code, its output and its error output;
  \<^verbatim>\<open>communicate\<close> raises \<^verbatim>\<open>TimeoutExpired\<close>; or one of the two raises
  another exception, with the given \<^verbatim>\<open>str(e)\<close>.
\<close>

datatype proc_result = Exited int string string | TimeoutExpired | Raised string

definition failed_message :: "int \<Rightarrow> string \<Rightarrow> string" where
  "failed_message rc err = ''Command failed with return code '' @ str_int rc @ [CHR 0x0A] @ err"

definition timeout_message :: string where
  "timeout_message = ''Job timed out after 1 hour''"

definition executing_message :: "string \<Rightarrow> string" where
  "executing_message m = ''Error executing job: '' @ m"

text \<open>
  The outer \<^verbatim>\<open>except Exception\<close> of \<^verbatim>\<open>_execute_job\<close> (lines 94, 95) around a
  handler that was called at \<open>t1\<close>: if that handler raised, \<^verbatim>\<open>_handle_failure\<close> is
  called once more, at \<open>t2\<close>, with the text of the exception. The assignment to
  \<^verbatim>\<open>job.error\<close> made by the first call is overwritten by the second.
\<close>

definition or_handle_exception :: "Job \<Rightarrow> datetime \<Rightarrow> py_exn + Job \<Rightarrow> py_exn + Job" where
  "or_handle_exception j t2 r =
     (case r of
        Inr j' \<Rightarrow> Inr j'
      | Inl e \<Rightarrow> handle_failure j t2 (executing_message (str_exn e)))"

text \<open>
  \<^verbatim>\<open>_execute_job\<close>. The first component tells whether \<^verbatim>\<open>process.kill()\<close> was
  called; the second is the object as committed, or the exception that leaves the
  function.
\<close>

definition execute_job :: "Job \<Rightarrow> proc_result \<Rightarrow> datetime \<Rightarrow> datetime \<Rightarrow> bool \<times> (py_exn + Job)" where
  "execute_job j p t1 t2 =
     (case p of
        Exited return_code out err \<Rightarrow>
          (False,
           or_handle_exception j t2
             (if return_code = 0 then Inr (handle_success j t1)
              else handle_failure j t1 (failed_message return_code err)))
      | TimeoutExpired \<Rightarrow>
          (True, or_handle_exception j t2 (handle_failure j t1 timeout_message))
      | Raised m \<Rightarrow>
          (False, handle_failure j t1 (executing_message m)))"

text \<open>
  \<^verbatim>\<open>_process_jobs\<close>: claim, execute, commit the outcome. An exception out of
  \<^verbatim>\<open>_execute_job\<close> is logged and the session rolled back: the table stays as the
  claim left it.
\<close>

definition process_jobs ::
  "store \<Rightarrow> datetime \<Rightarrow> datetime \<Rightarrow> proc_result \<Rightarrow> datetime \<Rightarrow> datetime \<Rightarrow> store" where
  "process_jobs s tq ts p t1 t2 =
     (case claim_next s tq ts of
        (s1, None) \<Rightarrow> s1
      | (s1, Some j) \<Rightarrow>
          (case snd (execute_job j p t1 t2) of
             Inr j' \<Rightarrow> update_row s1 j'
           | Inl e \<Rightarrow> s1))"

text \<open>
  Several workers. Each call of \<^verbatim>\<open>_process_jobs\<close> opens a session of its own, and
  nothing between the query (lines 42 to 45) and the commit of the mark (lines 51 to 54)
  locks the row or makes the update depend on the row still being pending: the update
  sets the three assigned columns of the row with the object's primary key, to values
  computed from the object as it was loaded. The two halves of a claim are therefore
  separate steps, and the steps of different workers interleave. \<open>loaded w\<close> is the
  object worker \<open>w\<close> got from its query, \<open>claimed w\<close> the job, as marked by
  \<open>w\<close>, that it goes on to execute.
\<close>

datatype claim_event = Query nat datetime | Mark nat datetime

record workers =
  table :: store
  loaded :: "nat \<Rightarrow> Job option"
  claimed :: "nat \<Rightarrow> Job option"

fun claim_step :: "workers \<Rightarrow> claim_event \<Rightarrow> workers" where
  "claim_step ws (Query w tq) = ws\<lparr>loaded := (loaded ws)(w := pending_query (table ws) tq)\<rparr>"
| "claim_step ws (Mark w ts) =
     (case loaded ws w of
        None \<Rightarrow> ws
      | Some j \<Rightarrow>
          ws\<lparr>table :=
               map (\<lambda>r. if job_id r = job_id j
                        then r\<lparr>status := PROCESSING, attempts := attempts j + 1, started_at := Some ts\<rparr>
                        else r) (table ws),
             claimed := (claimed ws)(w := Some (mark_processing j ts))\<rparr>)"

definition run_claims :: "store \<Rightarrow> claim_event list \<Rightarrow> workers" where
  "run_claims s evs = foldl claim_step \<lparr>table = s, loaded = (\<lambda>w. None), claimed = (\<lambda>w. None)\<rparr> evs"

text \<open>
  \<^verbatim>\<open>Worker.__init__\<close>. The names bound at module level are those of the statements of
  \<^verbatim>\<open>worker.py\<close>; \<^verbatim>\<open>import threading\<close> stands inside \<^verbatim>\<open>start_workers\<close> and
  binds a local name of that function only (and \<^verbatim>\<open>threading\<close> is no builtin
  name, so the lookup ends at the module). An \<^verbatim>\<open>Event\<close> is its flag; an
  \<^verbatim>\<open>Event\<close> object is always truthy, so \<^verbatim>\<open>shutdown_event or threading.Event()\<close>
  evaluates the right operand exactly when no event was passed.
\<close>

datatype stmt =
    Import string
  | FromImport string "string list"
  | Assign string
  | ClassDef string
  | FunctionDef string

fun binds :: "stmt \<Rightarrow> string list" where
  "binds (Import m) = [m]"
| "binds (FromImport m ns) = ns"
| "binds (Assign n) = [n]"
| "binds (ClassDef n) = [n]"
| "binds (FunctionDef n) = [n]"

definition module_globals :: "stmt list \<Rightarrow> string list" where
  "module_globals ss = concat (map binds ss)"

definition worker_module :: "stmt list" where
  "worker_module =
     [Import ''os'', Import ''time'', Import ''signal'', Import ''subprocess'',
      FromImport ''datetime'' [''datetime'', ''timedelta''],
      FromImport ''.models'' [''Job'', ''JobStatus'', ''get_db_session''],
      Import ''logging'', Assign ''logger'', ClassDef ''Worker'', FunctionDef ''start_workers'']"

definition lookup_global :: "string list \<Rightarrow> string \<Rightarrow> py_exn + unit" where
  "lookup_global globals n =
     (if n \<in> set globals then Inr ()
      else Inl (NameError (''name '' @ [CHR 0x27] @ n @ [CHR 0x27] @ '' is not defined'')))"

record Worker =
  worker_id :: int
  max_jobs :: int
  shutdown_event :: bool
  current_job :: "Job option"
  running :: bool

definition Worker_init :: "string list \<Rightarrow> int \<Rightarrow> int \<Rightarrow> bool option \<Rightarrow> py_exn + Worker" where
  "Worker_init globals wid mj ev =
     (case ev of
        Some e \<Rightarrow>
          Inr \<lparr>worker_id = wid, max_jobs = mj, shutdown_event = e, current_job = None, running = False\<rparr>
      | None \<Rightarrow>
          (case lookup_global globals ''threading'' of
             Inl x \<Rightarrow> Inl x
           | Inr _ \<Rightarrow>
               Inr \<lparr>worker_id = wid, max_jobs = mj, shutdown_event = False, current_job = None,
                    running = False\<rparr>))"

subsection \<open>\<^verbatim>\<open>cli.py\<close>\<close>

datatype click_error = ClickException string | UsageError string

record config =
  cfg_max_retries :: int
  cfg_backoff_base :: int
  cfg_default_workers :: int
  cfg_log_level :: string

definition DEFAULT_CONFIG :: config where
  "DEFAULT_CONFIG =
     \<lparr>cfg_max_retries = 3, cfg_backoff_base = 2, cfg_default_workers = 1, cfg_log_level = ''INFO''\<rparr>"

text \<open>
  \<^verbatim>\<open>add_command\<close>: the options are \<^verbatim>\<open>None\<close> when not given; the row gets the
  column defaults of \<^verbatim>\<open>models.py\<close> for everything else. The \<^verbatim>\<open>except\<close> branch
  (\<^verbatim>\<open>ClickException\<close>) is entered only when the store fails.
\<close>

definition new_job :: "int \<Rightarrow> string \<Rightarrow> int \<Rightarrow> int \<Rightarrow> datetime \<Rightarrow> Job" where
  "new_job i cmd ma bb now =
     \<lparr>job_id = i, command = cmd, status = PENDING, created_at = now, started_at = None,
      completed_at = None, attempts = 0, max_attempts = ma, error = None, backoff_base = bb,
      next_retry_at = None\<rparr>"

definition add_command ::
  "string \<Rightarrow> int option \<Rightarrow> int option \<Rightarrow> config \<Rightarrow> datetime \<Rightarrow> store \<Rightarrow> click_error + store" where
  "add_command cmd max_retries bb cfg now s =
     Inr (s @ [new_job (next_id s) cmd
                 (py_or max_retries (cfg_max_retries cfg))
                 (py_or bb (cfg_backoff_base cfg)) now])"

text \<open>
  \<^verbatim>\<open>config set\<close>, for the three numeric keys: the value must be positive.
\<close>

definition config_set_int :: "int \<Rightarrow> click_error + int" where
  "config_set_int v = (if v \<le> 0 then Inl (UsageError ''Value must be positive'') else Inr v)"




subsection \<open>The tables the operations can produce\<close>


subsection \<open>Values used in the examples\<close>

text \<open>A value that \<^verbatim>\<open>datetime.utcnow()\<close> can return lies in the range of the type.\<close>

definition is_datetime :: "datetime \<Rightarrow> bool" where
  "is_datetime t = (dt_min \<le> t \<and> t \<le> dt_max)"

text \<open>2026-11-03 00:00:00, day 739923 of the calendar.\<close>

definition t_2026 :: datetime where
  "t_2026 = 63929260800000000"



text \<open>
  A job submitted with \<^verbatim>\<open>--max-retries 3\<close>, and the same job after its first and
  after its second failed attempt (claims one second after \<open>t_2026\<close> and 200 and 500
  seconds later, each failure one second after the claim).
\<close>

definition fresh_job :: Job where
  "fresh_job = new_job 1 ''exit 1'' 3 2 t_2026"

definition failed_once :: Job where
  "failed_once =
     fresh_job\<lparr>status := PENDING, attempts := 1, started_at := Some (t_2026 + 1000000),
       error := Some ''first'', next_retry_at := Some (t_2026 + 122000000)\<rparr>"

definition failed_twice :: Job where
  "failed_twice =
     fresh_job\<lparr>status := PENDING, attempts := 2, started_at := Some (t_2026 + 200000000),
       error := Some ''second'', next_retry_at := Some (t_2026 + 441000000)\<rparr>"








text \<open>A job added with \<^verbatim>\<open>add-command 'sleep 7200' --backoff-base 10000000000\<close>.\<close>

definition huge_base_job :: Job where
  "huge_base_job = new_job 1 ''sleep 7200'' 3 10000000000 t_2026"

section \<open>Properties\<close>



subsection \<open>Date arithmetic\<close>

lemma timedelta_ok:
  assumes "- 315537897600 \<le> n" "n \<le> 315537897600"
  shows "timedelta_seconds n = Inr (n * 1000000)"
proof -
  have "- 3652059 \<le> n div 86400" "n div 86400 \<le> 3652059"
    using assms by linarith+
  then show ?thesis by (simp add: timedelta_seconds_def Let_def)
qed

lemma dt_add_ok: "is_datetime (t + d) \<Longrightarrow> dt_add t d = Inr (t + d)"
  by (simp add: dt_add_def is_datetime_def Let_def)


subsection \<open>A failure before the last attempt\<close>

lemma handle_failure_scheduled:
  assumes "\<not> max_attempts j \<le> int (attempts j)"
    and "timedelta_seconds (backoff j) = Inr d"
    and "dt_add now d = Inr t"
  shows "handle_failure j now err = Inr (j\<lparr>error := Some err, next_retry_at := Some t, status := PENDING\<rparr>)"
  using assms by (simp add: handle_failure_def Let_def backoff_def)

lemma handle_failure_in_range:
  assumes "int (attempts j) < max_attempts j"
    and "is_datetime now"
    and "is_datetime (now + backoff_base j ^ attempts j * 60 * 1000000)"
  shows "handle_failure j now err =
           Inr (j\<lparr>error := Some err,
                  next_retry_at := Some (now + backoff_base j ^ attempts j * 60 * 1000000),
                  status := PENDING\<rparr>)"
proof -
  have n: "backoff j = backoff_base j ^ attempts j * 60"
    by (simp add: backoff_def)
  have "- 315537897600 \<le> backoff j" and "backoff j \<le> 315537897600"
    using assms(2,3) by (simp_all add: n is_datetime_def dt_min_def dt_max_def)
  then have td: "timedelta_seconds (backoff j) = Inr (backoff j * 1000000)"
    by (rule timedelta_ok)
  have ad: "dt_add now (backoff j * 1000000) = Inr (now + backoff j * 1000000)"
    using assms(3) by (intro dt_add_ok) (simp add: n)
  have "handle_failure j now err =
           Inr (j\<lparr>error := Some err, next_retry_at := Some (now + backoff j * 1000000), status := PENDING\<rparr>)"
    using assms(1) td ad by (intro handle_failure_scheduled) simp_all
  then show ?thesis
    by (simp only: n)
qed




subsection \<open>A failure in the last attempt\<close>

lemma handle_failure_exhausted:
  "max_attempts j \<le> int (attempts j) \<Longrightarrow>
   handle_failure j now err = Inr (j\<lparr>error := Some err, status := DEAD, completed_at := Some now\<rparr>)"
  by (simp add: handle_failure_def Let_def)

lemma handle_failure_cases:
  assumes "handle_failure j now err = Inr j'"
  shows "attempts j' = attempts j \<and> max_attempts j' = max_attempts j \<and> error j' = Some err \<and>
         (if max_attempts j \<le> int (attempts j)
          then status j' = DEAD \<and> completed_at j' = Some now
          else status j' = PENDING \<and> completed_at j' = completed_at j)"
  using assms by (auto simp add: handle_failure_def Let_def split: if_splits sum.splits)

lemma execute_job_exhausted:
  assumes "max_attempts j \<le> int (attempts j)" and "\<forall>out err. p \<noteq> Exited 0 out err"
  shows "\<exists>m. snd (execute_job j p t1 t2) = Inr (j\<lparr>error := Some m, status := DEAD, completed_at := Some t1\<rparr>)"
proof (cases p)
  case (Exited rc out err)
  with assms(2) have "rc \<noteq> 0" by auto
  with Exited show ?thesis
    by (intro exI [of _ "failed_message rc err"])
       (simp add: execute_job_def or_handle_exception_def handle_failure_exhausted [OF assms(1)])
next
  case TimeoutExpired
  then show ?thesis
    by (intro exI [of _ timeout_message])
       (simp add: execute_job_def or_handle_exception_def handle_failure_exhausted [OF assms(1)])
next
  case (Raised m)
  then show ?thesis
    by (intro exI [of _ "executing_message m"])
       (simp add: execute_job_def handle_failure_exhausted [OF assms(1)])
qed

text \<open>
  Claim C4: a failure with \<open>attempts \<ge> max_attempts\<close> is recorded as \<open>DEAD\<close>, with
  \<open>completed_at = now\<close> and the error of the failure, whatever way the execution
  failed (non-zero return code, timeout, exception); and a job with
  \<open>max_attempts = 3\<close> whose first two failures were recorded is pending after each of
  them and dead after the third, at whatever times the claims and failures happen.
\<close>

theorem failure_at_max_attempts_is_dead:
  "(max_attempts j \<le> int (attempts j) \<longrightarrow>
      handle_failure j now err = Inr (j\<lparr>error := Some err, status := DEAD, completed_at := Some now\<rparr>))
   \<and> (max_attempts j \<le> int (attempts j) \<and> (\<forall>out e. p \<noteq> Exited 0 out e) \<longrightarrow>
        (\<exists>m. snd (execute_job j p now t2) =
               Inr (j\<lparr>error := Some m, status := DEAD, completed_at := Some now\<rparr>)))
   \<and> (attempts j0 = 0 \<and> max_attempts j0 = 3 \<and>
        handle_failure (mark_processing j0 s1) f1 e1 = Inr j1 \<and>
        handle_failure (mark_processing j1 s2) f2 e2 = Inr j2 \<longrightarrow>
        status j1 = PENDING \<and> status j2 = PENDING \<and> attempts (mark_processing j2 s3) = 3 \<and>
        handle_failure (mark_processing j2 s3) f3 e3 =
          Inr ((mark_processing j2 s3)\<lparr>error := Some e3, status := DEAD, completed_at := Some f3\<rparr>))"
proof (intro conjI impI)
  assume "max_attempts j \<le> int (attempts j)"
  then show "handle_failure j now err = Inr (j\<lparr>error := Some err, status := DEAD, completed_at := Some now\<rparr>)"
    by (rule handle_failure_exhausted)
next
  assume "max_attempts j \<le> int (attempts j) \<and> (\<forall>out e. p \<noteq> Exited 0 out e)"
  then show "\<exists>m. snd (execute_job j p now t2) =
               Inr (j\<lparr>error := Some m, status := DEAD, completed_at := Some now\<rparr>)"
    by (intro execute_job_exhausted) simp_all
next
  assume a: "attempts j0 = 0 \<and> max_attempts j0 = 3 \<and>
        handle_failure (mark_processing j0 s1) f1 e1 = Inr j1 \<and>
        handle_failure (mark_processing j1 s2) f2 e2 = Inr j2"
  have m0: "attempts (mark_processing j0 s1) = 1" "max_attempts (mark_processing j0 s1) = 3"
    using a by (simp_all add: mark_processing_def)
  have c1: "attempts j1 = 1" "max_attempts j1 = 3" "status j1 = PENDING"
    using a handle_failure_cases [of "mark_processing j0 s1" f1 e1 j1] m0 by simp_all
  have m1: "attempts (mark_processing j1 s2) = 2" "max_attempts (mark_processing j1 s2) = 3"
    using c1 by (simp_all add: mark_processing_def)
  have c2: "attempts j2 = 2" "max_attempts j2 = 3" "status j2 = PENDING"
    using a handle_failure_cases [of "mark_processing j1 s2" f2 e2 j2] m1 by simp_all
  have m2: "attempts (mark_processing j2 s3) = 3" "max_attempts (mark_processing j2 s3) = 3"
    using c2 by (simp_all add: mark_processing_def)
  show "status j1 = PENDING" by (rule c1)
  show "status j2 = PENDING" by (rule c2)
  show "attempts (mark_processing j2 s3) = 3" by (rule m2)
  show "handle_failure (mark_processing j2 s3) f3 e3 =
          Inr ((mark_processing j2 s3)\<lparr>error := Some e3, status := DEAD, completed_at := Some f3\<rparr>)"
    using m2 by (intro handle_failure_exhausted) simp
qed

text \<open>The scenario of the specification, at \<open>fresh_job\<close>.\<close>

theorem failure_at_max_attempts_is_dead_witness:
  "handle_failure (mark_processing fresh_job (t_2026 + 1000000)) (t_2026 + 2000000) ''first'' = Inr failed_once
   \<and> handle_failure (mark_processing failed_once (t_2026 + 200000000)) (t_2026 + 201000000) ''second'' = Inr failed_twice
   \<and> handle_failure (mark_processing failed_twice (t_2026 + 500000000)) (t_2026 + 501000000) ''third'' =
       Inr (fresh_job\<lparr>status := DEAD, attempts := 3, started_at := Some (t_2026 + 500000000),
              completed_at := Some (t_2026 + 501000000), error := Some ''third'',
              next_retry_at := Some (t_2026 + 441000000)\<rparr>)
   \<and> snd (execute_job (mark_processing failed_twice (t_2026 + 500000000)) TimeoutExpired
            (t_2026 + 501000000) (t_2026 + 501000001)) =
       Inr (fresh_job\<lparr>status := DEAD, attempts := 3, started_at := Some (t_2026 + 500000000),
              completed_at := Some (t_2026 + 501000000), error := Some timeout_message,
              next_retry_at := Some (t_2026 + 441000000)\<rparr>)"
proof -
  have h1: "handle_failure (mark_processing fresh_job (t_2026 + 1000000)) (t_2026 + 2000000) ''first'' = Inr failed_once"
    by (simp add: handle_failure_def mark_processing_def fresh_job_def failed_once_def new_job_def
        backoff_def timedelta_seconds_def dt_add_def dt_min_def dt_max_def t_2026_def Let_def)
  have h2: "handle_failure (mark_processing failed_once (t_2026 + 200000000)) (t_2026 + 201000000) ''second'' = Inr failed_twice"
    by (simp add: handle_failure_def mark_processing_def fresh_job_def failed_once_def failed_twice_def
        new_job_def backoff_def timedelta_seconds_def dt_add_def dt_min_def dt_max_def t_2026_def Let_def)
  have h0: "attempts fresh_job = 0 \<and> max_attempts fresh_job = 3"
    by (simp add: fresh_job_def new_job_def)
  have h3: "max_attempts (mark_processing failed_twice (t_2026 + 500000000))
              \<le> int (attempts (mark_processing failed_twice (t_2026 + 500000000)))"
    by (simp add: mark_processing_def failed_twice_def fresh_job_def new_job_def)
  have h4: "\<forall>out e. TimeoutExpired \<noteq> Exited 0 out e" by simp
  from failure_at_max_attempts_is_dead
    [of "mark_processing failed_twice (t_2026 + 500000000)" "t_2026 + 501000000" "''third''"
        TimeoutExpired "t_2026 + 501000001"
        fresh_job "t_2026 + 1000000" "t_2026 + 2000000" "''first''" failed_once
        "t_2026 + 200000000" "t_2026 + 201000000" "''second''" failed_twice
        "t_2026 + 500000000" "t_2026 + 501000000" "''third''"]
  have "handle_failure (mark_processing failed_twice (t_2026 + 500000000)) (t_2026 + 501000000) ''third'' =
          Inr ((mark_processing failed_twice (t_2026 + 500000000))
                 \<lparr>error := Some ''third'', status := DEAD, completed_at := Some (t_2026 + 501000000)\<rparr>)"
    using h0 h1 h2 by blast
  then have d: "handle_failure (mark_processing failed_twice (t_2026 + 500000000)) (t_2026 + 501000000) ''third'' =
       Inr (fresh_job\<lparr>status := DEAD, attempts := 3, started_at := Some (t_2026 + 500000000),
              completed_at := Some (t_2026 + 501000000), error := Some ''third'',
              next_retry_at := Some (t_2026 + 441000000)\<rparr>)"
    by (simp add: mark_processing_def failed_twice_def)
  have e: "snd (execute_job (mark_processing failed_twice (t_2026 + 500000000)) TimeoutExpired
            (t_2026 + 501000000) (t_2026 + 501000001)) =
       Inr (fresh_job\<lparr>status := DEAD, attempts := 3, started_at := Some (t_2026 + 500000000),
              completed_at := Some (t_2026 + 501000000), error := Some timeout_message,
              next_retry_at := Some (t_2026 + 441000000)\<rparr>)"
    by (simp add: execute_job_def or_handle_exception_def handle_failure_exhausted [OF h3])
       (simp add: mark_processing_def failed_twice_def)
  show ?thesis using h1 h2 d e by blast
qed

subsection \<open>Retrying from the dead letter queue\<close>




subsection \<open>Adding a job\<close>

text \<open>
  Claim C6 says that a submission with a non-positive \<^verbatim>\<open>max_attempts\<close> is rejected and
  nothing stored. \<^verbatim>\<open>add_command\<close> checks nothing: \<^verbatim>\<open>--max-retries -5\<close> is
  accepted and the job stored with \<open>max_attempts = -5\<close>, although \<^verbatim>\<open>config set\<close>
  refuses the same value for the same parameter.
\<close>

theorem add_command_accepts_negative:
  "add_command ''echo hi'' (Some (- 5)) None DEFAULT_CONFIG t_2026 [] =
     Inr [new_job 1 ''echo hi'' (- 5) 2 t_2026]
   \<and> max_attempts (new_job 1 ''echo hi'' (- 5) 2 t_2026) = - 5
   \<and> config_set_int (- 5) = Inl (UsageError ''Value must be positive'')"
  by (simp add: add_command_def py_or_def DEFAULT_CONFIG_def next_id_def new_job_def config_set_int_def)



subsection \<open>Constructing a worker\<close>

text \<open>
  Claim C9: \<^verbatim>\<open>Worker(worker_id)\<close>, with \<^verbatim>\<open>shutdown_event\<close> left at its default
  \<^verbatim>\<open>None\<close>, raises \<^verbatim>\<open>NameError\<close>: \<^verbatim>\<open>threading\<close> is not among the names bound at
  module level in \<^verbatim>\<open>worker.py\<close>. With an event passed, as \<^verbatim>\<open>start_workers\<close>
  does, the constructor succeeds.
\<close>

theorem Worker_init_default_raises:
  "Worker_init (module_globals worker_module) wid mj None =
     Inl (NameError (''name '' @ [CHR 0x27] @ ''threading'' @ [CHR 0x27] @ '' is not defined''))
   \<and> ''threading'' \<notin> set (module_globals worker_module)
   \<and> (\<forall>e. Worker_init (module_globals worker_module) wid mj (Some e) =
        Inr \<lparr>worker_id = wid, max_jobs = mj, shutdown_event = e, current_job = None, running = False\<rparr>)"
  by (simp add: Worker_init_def lookup_global_def module_globals_def worker_module_def)

subsection \<open>The claim query\<close>







subsection \<open>Dead jobs in the tables the operations produce\<close>




















subsection \<open>Timeouts, and failures in general\<close>

lemma job_id_mark_processing: "job_id (mark_processing j ts) = job_id j"
  by (simp add: mark_processing_def)

lemma timeout_message_not_failed_message: "timeout_message \<noteq> failed_message rc err"
  by (simp add: timeout_message_def failed_message_def)

lemma handle_failure_recorded:
  assumes "is_datetime now"
    and "max_attempts j \<le> int (attempts j) \<or>
         is_datetime (now + backoff_base j ^ attempts j * 60 * 1000000)"
  shows "\<exists>j'. handle_failure j now err = Inr j' \<and> error j' = Some err \<and>
              attempts j' = attempts j \<and> (status j' = PENDING \<or> status j' = DEAD)"
proof (cases "max_attempts j \<le> int (attempts j)")
  case True
  then show ?thesis by (simp add: handle_failure_exhausted)
next
  case False
  with assms(2) have "is_datetime (now + backoff_base j ^ attempts j * 60 * 1000000)"
    and "int (attempts j) < max_attempts j" by simp_all
  then show ?thesis using assms(1) by (simp add: handle_failure_in_range)
qed

lemma execute_job_recorded:
  assumes "is_datetime t1"
    and "max_attempts j \<le> int (attempts j) \<or>
         is_datetime (t1 + backoff_base j ^ attempts j * 60 * 1000000)"
  shows "\<exists>j'. snd (execute_job j p t1 t2) = Inr j' \<and> attempts j' = attempts j \<and>
              ((\<forall>out e. p \<noteq> Exited 0 out e) \<longrightarrow> (\<exists>m. error j' = Some m))"
proof (cases p)
  case (Exited rc out err)
  show ?thesis
  proof (cases "rc = 0")
    case True
    with Exited show ?thesis
      by (simp add: execute_job_def or_handle_exception_def handle_success_def)
  next
    case False
    from handle_failure_recorded [OF assms, of "failed_message rc err"]
    obtain j' where "handle_failure j t1 (failed_message rc err) = Inr j'"
      "error j' = Some (failed_message rc err)" "attempts j' = attempts j" by blast
    with Exited False show ?thesis
      by (simp add: execute_job_def or_handle_exception_def)
  qed
next
  case TimeoutExpired
  from handle_failure_recorded [OF assms, of timeout_message]
  obtain j' where "handle_failure j t1 timeout_message = Inr j'"
    "error j' = Some timeout_message" "attempts j' = attempts j" by blast
  with TimeoutExpired show ?thesis
    by (simp add: execute_job_def or_handle_exception_def)
next
  case (Raised m)
  from handle_failure_recorded [OF assms, of "executing_message m"]
  obtain j' where "handle_failure j t1 (executing_message m) = Inr j'"
    "error j' = Some (executing_message m)" "attempts j' = attempts j" by blast
  with Raised show ?thesis
    by (simp add: execute_job_def)
qed

text \<open>
  Let a claimed job be executed with the failure handled at a time \<open>t1\<close>, and let the
  job be in its last attempt, or \<open>t1\<close> plus its backoff be a \<^verbatim>\<open>datetime\<close>. If the
  command exceeds the timeout, \<^verbatim>\<open>process.kill()\<close> is called and the outcome is
  recorded with the error \<^verbatim>\<open>Job timed out after 1 hour\<close>, which is not the message
  of any return code, with the attempts as the claim left them: the whole cycle from a
  table in which the job was pending consumes exactly one attempt. Whatever the process
  does, \<^verbatim>\<open>_execute_job\<close> raises nothing and records an outcome, with an error
  message whenever the execution was not a success.
\<close>

lemma execute_job_timeout:
  assumes "is_datetime t1"
    and "max_attempts j \<le> int (attempts j) \<or>
         is_datetime (t1 + backoff_base j ^ attempts j * 60 * 1000000)"
  shows "(\<exists>j'. execute_job j TimeoutExpired t1 t2 = (True, Inr j') \<and>
               error j' = Some ''Job timed out after 1 hour'' \<and>
               (\<forall>rc err. error j' \<noteq> Some (failed_message rc err)) \<and>
               attempts j' = attempts j \<and>
               (\<forall>s tq ts j0. pending_query s tq = Some j0 \<and> j = mark_processing j0 ts \<longrightarrow>
                  process_jobs s tq ts TimeoutExpired t1 t2 = update_row (update_row s j) j' \<and>
                  attempts j' = attempts j0 + 1))
         \<and> (\<forall>p. \<exists>j'. snd (execute_job j p t1 t2) = Inr j' \<and> attempts j' = attempts j \<and>
               ((\<forall>out e. p \<noteq> Exited 0 out e) \<longrightarrow> (\<exists>m. error j' = Some m)))"
proof -
  from handle_failure_recorded [OF assms, of timeout_message]
  obtain j' where h: "handle_failure j t1 timeout_message = Inr j'"
    and err: "error j' = Some timeout_message" and att: "attempts j' = attempts j" by blast
  have ex: "execute_job j TimeoutExpired t1 t2 = (True, Inr j')"
    by (simp add: execute_job_def or_handle_exception_def h)
  have cyc: "process_jobs s tq ts TimeoutExpired t1 t2 = update_row (update_row s j) j' \<and>
             attempts j' = attempts j0 + 1"
    if "pending_query s tq = Some j0 \<and> j = mark_processing j0 ts" for s tq ts j0
  proof -
    from that have q: "pending_query s tq = Some j0" and m: "mark_processing j0 ts = j" by simp_all
    have "attempts j = attempts j0 + 1" using m by (auto simp add: mark_processing_def)
    moreover have "process_jobs s tq ts TimeoutExpired t1 t2 = update_row (update_row s j) j'"
      by (simp add: process_jobs_def claim_next_def q m ex)
    ultimately show ?thesis using att by simp
  qed
  have first: "\<exists>j'. execute_job j TimeoutExpired t1 t2 = (True, Inr j') \<and>
               error j' = Some ''Job timed out after 1 hour'' \<and>
               (\<forall>rc err. error j' \<noteq> Some (failed_message rc err)) \<and>
               attempts j' = attempts j \<and>
               (\<forall>s tq ts j0. pending_query s tq = Some j0 \<and> j = mark_processing j0 ts \<longrightarrow>
                  process_jobs s tq ts TimeoutExpired t1 t2 = update_row (update_row s j) j' \<and>
                  attempts j' = attempts j0 + 1)"
  proof (intro exI [of _ j'] conjI allI impI)
    show "execute_job j TimeoutExpired t1 t2 = (True, Inr j')" by (rule ex)
    show "error j' = Some ''Job timed out after 1 hour''"
      using err by (simp add: timeout_message_def)
    show "error j' \<noteq> Some (failed_message rc e)" for rc e
      using err timeout_message_not_failed_message [of rc e] by simp
    show "attempts j' = attempts j" by (rule att)
    show "process_jobs s tq ts TimeoutExpired t1 t2 = update_row (update_row s j) j'"
      if "pending_query s tq = Some j0 \<and> j = mark_processing j0 ts" for s tq ts j0
      using cyc [OF that] by simp
    show "attempts j' = attempts j0 + 1"
      if "pending_query s tq = Some j0 \<and> j = mark_processing j0 ts" for s tq ts j0
      using cyc [OF that] by simp
  qed
  have second: "\<forall>p. \<exists>j'. snd (execute_job j p t1 t2) = Inr j' \<and> attempts j' = attempts j \<and>
               ((\<forall>out e. p \<noteq> Exited 0 out e) \<longrightarrow> (\<exists>m. error j' = Some m))"
    using execute_job_recorded [OF assms] by blast
  from first second show ?thesis by (rule conjI)
qed

text \<open>
  The job \<open>fresh_job\<close>, claimed and timing out in its first attempt: killed, recorded as
  pending with the timeout message, one attempt used, retry 120 seconds later.
\<close>

lemma execute_job_timeout_example:
  "execute_job (mark_processing fresh_job (t_2026 + 2)) TimeoutExpired
       (t_2026 + 3602000000) (t_2026 + 3602000001) =
     (True, Inr (fresh_job\<lparr>status := PENDING, attempts := 1, started_at := Some (t_2026 + 2),
                   error := Some ''Job timed out after 1 hour'',
                   next_retry_at := Some (t_2026 + 3722000000)\<rparr>))
   \<and> process_jobs [fresh_job] (t_2026 + 1) (t_2026 + 2) TimeoutExpired
       (t_2026 + 3602000000) (t_2026 + 3602000001) =
     [fresh_job\<lparr>status := PENDING, attempts := 1, started_at := Some (t_2026 + 2),
                   error := Some ''Job timed out after 1 hour'',
                   next_retry_at := Some (t_2026 + 3722000000)\<rparr>]"
proof -
  let ?j = "mark_processing fresh_job (t_2026 + 2)"
  have a: "is_datetime (t_2026 + 3602000000)"
    by (simp add: is_datetime_def t_2026_def dt_min_def dt_max_def)
  have b: "max_attempts ?j \<le> int (attempts ?j) \<or>
           is_datetime (t_2026 + 3602000000 + backoff_base ?j ^ attempts ?j * 60 * 1000000)"
    by (simp add: is_datetime_def t_2026_def dt_min_def dt_max_def mark_processing_def
        fresh_job_def new_job_def)
  have q: "pending_query [fresh_job] (t_2026 + 1) = Some fresh_job"
    by (simp add: pending_query_def eligible_def fresh_job_def new_job_def)
  have v: "handle_failure ?j (t_2026 + 3602000000) timeout_message =
      Inr (fresh_job\<lparr>status := PENDING, attempts := 1, started_at := Some (t_2026 + 2),
                   error := Some ''Job timed out after 1 hour'',
                   next_retry_at := Some (t_2026 + 3722000000)\<rparr>)"
    by (simp add: handle_failure_def mark_processing_def fresh_job_def new_job_def backoff_def
        timedelta_seconds_def dt_add_def dt_min_def dt_max_def t_2026_def timeout_message_def Let_def)
  from execute_job_timeout [OF a b, of "t_2026 + 3602000001"]
  obtain j' where e: "execute_job ?j TimeoutExpired (t_2026 + 3602000000) (t_2026 + 3602000001) = (True, Inr j')"
    and c: "\<forall>s tq ts j0. pending_query s tq = Some j0 \<and> ?j = mark_processing j0 ts \<longrightarrow>
                  process_jobs s tq ts TimeoutExpired (t_2026 + 3602000000) (t_2026 + 3602000001) =
                    update_row (update_row s ?j) j' \<and>
                  attempts j' = attempts j0 + 1"
    by blast
  have j': "j' = fresh_job\<lparr>status := PENDING, attempts := 1, started_at := Some (t_2026 + 2),
                   error := Some ''Job timed out after 1 hour'',
                   next_retry_at := Some (t_2026 + 3722000000)\<rparr>"
    using e by (simp add: execute_job_def or_handle_exception_def v)
  from c q have "process_jobs [fresh_job] (t_2026 + 1) (t_2026 + 2) TimeoutExpired
       (t_2026 + 3602000000) (t_2026 + 3602000001) = update_row (update_row [fresh_job] ?j) j'"
    by blast
  then have p: "process_jobs [fresh_job] (t_2026 + 1) (t_2026 + 2) TimeoutExpired
       (t_2026 + 3602000000) (t_2026 + 3602000001) = [j']"
    by (simp add: update_row_def mark_processing_def j')
  show ?thesis using e p by (simp add: j')
qed

text \<open>
  Claim C7 has every timeout recorded with the timeout message, one attempt consumed,
  and no failure ever leaving the executor. Without the side condition above the code
  does not do that: a job added with base 10000000000 that times out in its first
  attempt is killed, but the retry time is no \<^verbatim>\<open>datetime\<close>,
  \<^verbatim>\<open>_handle_failure\<close> raises, raises again when called from the
  \<^verbatim>\<open>except Exception\<close> branch, and the exception leaves \<^verbatim>\<open>_execute_job\<close>;
  the row stays \<open>PROCESSING\<close> with no error recorded.
\<close>

theorem timeout_overflow_leaves_executor:
  "execute_job (mark_processing huge_base_job (t_2026 + 2)) TimeoutExpired
       (t_2026 + 3602000000) (t_2026 + 3602000001) =
     (True, Inl (OverflowError ''date value out of range''))
   \<and> process_jobs [huge_base_job] (t_2026 + 1) (t_2026 + 2) TimeoutExpired
       (t_2026 + 3602000000) (t_2026 + 3602000001) =
     [huge_base_job\<lparr>status := PROCESSING, attempts := 1, started_at := Some (t_2026 + 2)\<rparr>]
   \<and> error (huge_base_job\<lparr>status := PROCESSING, attempts := 1, started_at := Some (t_2026 + 2)\<rparr>) = None"
proof -
  have q: "pending_query [huge_base_job] (t_2026 + 1) = Some huge_base_job"
    by (simp add: pending_query_def eligible_def huge_base_job_def new_job_def)
  have m: "mark_processing huge_base_job (t_2026 + 2) =
      huge_base_job\<lparr>status := PROCESSING, attempts := 1, started_at := Some (t_2026 + 2)\<rparr>"
    by (simp add: mark_processing_def huge_base_job_def new_job_def)
  have h: "handle_failure (mark_processing huge_base_job (t_2026 + 2)) t err =
      Inl (OverflowError ''date value out of range'')"
    if "t = t_2026 + 3602000000 \<or> t = t_2026 + 3602000001" for t err
    using that
    by (auto simp add: handle_failure_def mark_processing_def huge_base_job_def new_job_def
        backoff_def timedelta_seconds_def dt_add_def dt_min_def dt_max_def t_2026_def Let_def)
  have e: "execute_job (mark_processing huge_base_job (t_2026 + 2)) TimeoutExpired
       (t_2026 + 3602000000) (t_2026 + 3602000001) =
     (True, Inl (OverflowError ''date value out of range''))"
    by (simp add: execute_job_def or_handle_exception_def h)
  have p: "process_jobs [huge_base_job] (t_2026 + 1) (t_2026 + 2) TimeoutExpired
       (t_2026 + 3602000000) (t_2026 + 3602000001) =
     [mark_processing huge_base_job (t_2026 + 2)]"
    by (simp add: process_jobs_def claim_next_def q e update_row_def job_id_mark_processing)
  have n: "error (huge_base_job\<lparr>status := PROCESSING, attempts := 1, started_at := Some (t_2026 + 2)\<rparr>) = None"
    by (simp add: huge_base_job_def new_job_def)
  show ?thesis using e p n by (simp add: m)
qed

subsection \<open>Two workers claiming at the same time\<close>

text \<open>
  Claim C1 says that of any number of concurrent claims against a table with exactly
  one eligible job exactly one receives it. With the table \<open>[fresh_job]\<close> and two
  workers whose queries both run before either commits its mark, both workers load the
  job, both mark it and both go on to execute it; the row ends with
  \<open>attempts = 1\<close> for two executions. When the second worker queries only after the
  first has committed, it receives nothing.
\<close>

theorem concurrent_claims_both_receive:
  "claimed (run_claims [fresh_job]
       [Query 1 (t_2026 + 1), Query 2 (t_2026 + 1), Mark 1 (t_2026 + 2), Mark 2 (t_2026 + 3)]) 1 =
     Some (fresh_job\<lparr>status := PROCESSING, attempts := 1, started_at := Some (t_2026 + 2)\<rparr>)
   \<and> claimed (run_claims [fresh_job]
       [Query 1 (t_2026 + 1), Query 2 (t_2026 + 1), Mark 1 (t_2026 + 2), Mark 2 (t_2026 + 3)]) 2 =
     Some (fresh_job\<lparr>status := PROCESSING, attempts := 1, started_at := Some (t_2026 + 3)\<rparr>)
   \<and> table (run_claims [fresh_job]
       [Query 1 (t_2026 + 1), Query 2 (t_2026 + 1), Mark 1 (t_2026 + 2), Mark 2 (t_2026 + 3)]) =
     [fresh_job\<lparr>status := PROCESSING, attempts := 1, started_at := Some (t_2026 + 3)\<rparr>]
   \<and> filter (eligible (t_2026 + 1)) [fresh_job] = [fresh_job]
   \<and> claimed (run_claims [fresh_job]
       [Query 1 (t_2026 + 1), Mark 1 (t_2026 + 2), Query 2 (t_2026 + 2), Mark 2 (t_2026 + 3)]) 2 = None"
  by (simp add: run_claims_def pending_query_def eligible_def mark_processing_def update_row_def
      fresh_job_def new_job_def)

end
